theory Spec2Isabelle
  imports Complex_Main "HOL-Library.Sublist" "HOL-Library.Monad_Syntax"
begin

section \<open>Track data (TrackUploader.tsx)\<close>

text \<open>
  The interfaces \<^verbatim>\<open>GPXPoint\<close> and \<^verbatim>\<open>TrackData\<close>. An optional field
  (\<^verbatim>\<open>elevation?: number\<close>, \<^verbatim>\<open>timestamp?: Date\<close>) is an \<open>option\<close>, \<open>None\<close> being
  \<^verbatim>\<open>undefined\<close>. Coordinates and elevations that come out of the parser are taken to be
  finite numbers and are modelled as exact reals: rounding error of IEEE doubles is not
  part of the model. A \<^verbatim>\<open>Date\<close> is its \<^verbatim>\<open>getTime()\<close> value, an integer number of
  milliseconds.
\<close>

record GPXPoint =
  lat :: real
  lng :: real
  elevation :: "real option"
  timestamp :: "int option"

record Bounds =
  north :: real
  south :: real
  east :: real
  west :: real

record Metadata =
  distance :: real
  duration :: "int option"
  elevationGain :: "real option"

record TrackData =
  name :: string
  points :: "GPXPoint list"
  bounds :: Bounds
  metadata :: Metadata

text \<open>
  The two \<^verbatim>\<open>throw new Error(...)\<close> of \<^verbatim>\<open>parseGPXFile\<close>: the XML parser reported an
  error, or the document holds no \<^verbatim>\<open>trkpt\<close> element.
\<close>

datatype error = InvalidGPXFormat | NoTrackPoints

subsection \<open>calculateDistance (haversine)\<close>

text \<open>\<^verbatim>\<open>Math.atan2(y, x)\<close> on finite arguments.\<close>

definition atan2 :: "real \<Rightarrow> real \<Rightarrow> real" where
  "atan2 b a =
     (if 0 < a then arctan (b / a)
      else if a < 0 then (if 0 \<le> b then arctan (b / a) + pi else arctan (b / a) - pi)
      else if 0 < b then pi / 2
      else if b < 0 then - (pi / 2)
      else 0)"

definition calculateDistance :: "GPXPoint \<Rightarrow> GPXPoint \<Rightarrow> real" where
  "calculateDistance point1 point2 =
     (let R = 6371000;
          lat1Rad = (lat point1 * pi) / 180;
          lat2Rad = (lat point2 * pi) / 180;
          deltaLatRad = ((lat point2 - lat point1) * pi) / 180;
          deltaLngRad = ((lng point2 - lng point1) * pi) / 180;
          a = sin (deltaLatRad / 2) * sin (deltaLatRad / 2) +
              cos lat1Rad * cos lat2Rad *
              sin (deltaLngRad / 2) * sin (deltaLngRad / 2);
          c = 2 * atan2 (sqrt a) (sqrt (1 - a))
      in R * c)"

subsection \<open>The metrics loops of parseGPXFile\<close>

text \<open>
  \<^verbatim>\<open>for (let i = 1; i < points.length; i++) totalDistance += calculateDistance(points[i - 1], points[i])\<close>
\<close>

definition totalDistanceLoop :: "GPXPoint list \<Rightarrow> real" where
  "totalDistanceLoop ps =
     fold (\<lambda>i totalDistance. totalDistance + calculateDistance (ps ! (i - 1)) (ps ! i))
       [1..<length ps] 0"

text \<open>
  \<^verbatim>\<open>points[i].elevation || 0\<close>: \<^verbatim>\<open>undefined\<close> and \<^verbatim>\<open>0\<close> both give \<^verbatim>\<open>0\<close>, every other
  finite number is kept.
\<close>

definition orZero :: "real option \<Rightarrow> real" where
  "orZero v = (case v of None \<Rightarrow> 0 | Some e \<Rightarrow> (if e = 0 then 0 else e))"

text \<open>
  The body of the elevation loop for one index \<open>i\<close>:
  \<^verbatim>\<open>const prev = points[i - 1].elevation || 0; const curr = points[i].elevation || 0;
  if (curr > prev) { elevationGain += curr - prev; }\<close>
\<close>

definition elevationStep :: "GPXPoint list \<Rightarrow> nat \<Rightarrow> real \<Rightarrow> real" where
  "elevationStep ps i gain =
     (let prev = orZero (elevation (ps ! (i - 1)));
          curr = orZero (elevation (ps ! i))
      in if curr > prev then gain + (curr - prev) else gain)"

text \<open>
  \<^verbatim>\<open>let elevationGain = 0; if (points.some(p => p.elevation !== undefined)) { for (let i = 1; i < points.length; i++) ... }\<close>
\<close>

definition elevationGainLoop :: "GPXPoint list \<Rightarrow> real" where
  "elevationGainLoop ps =
     (if list_ex (\<lambda>p. elevation p \<noteq> None) ps
      then fold (elevationStep ps) [1..<length ps] 0
      else 0)"

text \<open>
  \<^verbatim>\<open>points.find(p => p.timestamp)?.timestamp\<close>: a \<^verbatim>\<open>Date\<close> object is always truthy, so
  the predicate holds exactly when the field is defined.
\<close>

definition findTimestamp :: "GPXPoint list \<Rightarrow> int option" where
  "findTimestamp ps =
     (case find (\<lambda>p. timestamp p \<noteq> None) ps of None \<Rightarrow> None | Some p \<Rightarrow> timestamp p)"

text \<open>
  \<^verbatim>\<open>firstTime = points.find(...)?.timestamp; lastTime = points.slice().reverse().find(...)?.timestamp;
  if (firstTime && lastTime) { duration = lastTime.getTime() - firstTime.getTime(); }\<close>
\<close>

definition computeDuration :: "GPXPoint list \<Rightarrow> int option" where
  "computeDuration ps =
     (let firstTime = findTimestamp ps;
          lastTime = findTimestamp (rev ps)
      in case (firstTime, lastTime) of
           (Some f, Some l) \<Rightarrow> Some (l - f)
         | _ \<Rightarrow> None)"

text \<open>
  \<^verbatim>\<open>Math.max(...lats)\<close> and \<^verbatim>\<open>Math.min(...lats)\<close> on a non-empty array. With no
  argument JavaScript returns \<^verbatim>\<open>-Infinity\<close> and \<^verbatim>\<open>Infinity\<close>, which are no reals: the
  functions have no equation for the empty list, and \<open>parseGPXFile\<close> never applies them
  to it.
\<close>

fun mathMax :: "real list \<Rightarrow> real" where
  "mathMax (v # vs) = fold max vs v"

fun mathMin :: "real list \<Rightarrow> real" where
  "mathMin (v # vs) = fold min vs v"

text \<open>
  The computation of \<^verbatim>\<open>parseGPXFile\<close> from the extracted points on: the XML decoding
  before it is left out, \<open>trackName\<close> is the name it extracts. The check
  \<^verbatim>\<open>trackPoints.length === 0\<close> is made on the \<^verbatim>\<open>trkpt\<close> nodes, of which \<^verbatim>\<open>points\<close>
  is the image under \<^verbatim>\<open>map\<close>, so it is the emptiness of \<open>ps\<close>; it throws before the
  bounds are computed, so \<open>mathMax\<close> and \<open>mathMin\<close> are never applied to an empty list.
\<close>

definition parseGPXFile :: "string \<Rightarrow> GPXPoint list \<Rightarrow> error + TrackData" where
  "parseGPXFile trackName ps =
     (if length ps = 0 then Inl NoTrackPoints
      else
        let lats = map lat ps;
            lngs = map lng ps;
            bnds = \<lparr>north = mathMax lats, south = mathMin lats,
                    east = mathMax lngs, west = mathMin lngs\<rparr>;
            totalDistance = totalDistanceLoop ps;
            gain = elevationGainLoop ps;
            dur = computeDuration ps
        in Inr \<lparr>name = trackName, points = ps, bounds = bnds,
                metadata = \<lparr>distance = totalDistance, duration = dur,
                             elevationGain = (if gain > 0 then Some gain else None)\<rparr>\<rparr>)"


section \<open>JavaScript numbers\<close>

text \<open>
  Where the code divides, the result of a JavaScript operation need not be a finite
  number: \<^verbatim>\<open>1 / 0\<close> is \<^verbatim>\<open>Infinity\<close> and \<^verbatim>\<open>0 / 0\<close> is \<^verbatim>\<open>NaN\<close>, and neither raises.
  A \<open>jsnum\<close> is a finite number, one of the two infinities, or \<^verbatim>\<open>NaN\<close>, with the
  IEEE 754 rules for the special values. Finite arithmetic is exact (no rounding, no
  overflow), and zero carries no sign: a division by zero takes the divisor as \<^verbatim>\<open>+0\<close>,
  which is what \<^verbatim>\<open>a - a\<close> and a sum of squares give.
\<close>

datatype jsnum = Num real | PInf | NInf | NaN

text \<open>The infinity (or \<^verbatim>\<open>NaN\<close>) that has the sign of \<open>s\<close>.\<close>

definition infOfSign :: "real \<Rightarrow> jsnum" where
  "infOfSign s = (if 0 < s then PInf else if s < 0 then NInf else NaN)"

fun signOf :: "jsnum \<Rightarrow> real" where
  "signOf (Num a) = sgn a"
| "signOf PInf = 1"
| "signOf NInf = - 1"
| "signOf NaN = 0"

fun js_add :: "jsnum \<Rightarrow> jsnum \<Rightarrow> jsnum" where
  "js_add NaN b = NaN"
| "js_add a NaN = NaN"
| "js_add (Num a) (Num b) = Num (a + b)"
| "js_add PInf NInf = NaN"
| "js_add NInf PInf = NaN"
| "js_add PInf b = PInf"
| "js_add a PInf = PInf"
| "js_add NInf b = NInf"
| "js_add a NInf = NInf"

fun js_neg :: "jsnum \<Rightarrow> jsnum" where
  "js_neg (Num a) = Num (- a)"
| "js_neg PInf = NInf"
| "js_neg NInf = PInf"
| "js_neg NaN = NaN"

definition js_sub :: "jsnum \<Rightarrow> jsnum \<Rightarrow> jsnum" where
  "js_sub a b = js_add a (js_neg b)"

fun js_mul :: "jsnum \<Rightarrow> jsnum \<Rightarrow> jsnum" where
  "js_mul NaN b = NaN"
| "js_mul a NaN = NaN"
| "js_mul (Num a) (Num b) = Num (a * b)"
| "js_mul a b = infOfSign (signOf a * signOf b)"

fun js_div :: "jsnum \<Rightarrow> jsnum \<Rightarrow> jsnum" where
  "js_div NaN b = NaN"
| "js_div a NaN = NaN"
| "js_div (Num a) (Num b) = (if b = 0 then infOfSign a else Num (a / b))"
| "js_div (Num a) b = Num 0"
| "js_div a (Num b) = infOfSign (signOf a * (if b < 0 then - 1 else 1))"
| "js_div a b = NaN"

text \<open>
  \<^verbatim>\<open>a < b\<close>, \<^verbatim>\<open>a > b\<close> and \<^verbatim>\<open>a !== b\<close>: every comparison with \<^verbatim>\<open>NaN\<close> is false, and
  \<^verbatim>\<open>NaN\<close> differs from everything.
\<close>

fun js_lt :: "jsnum \<Rightarrow> jsnum \<Rightarrow> bool" where
  "js_lt NaN b = False"
| "js_lt a NaN = False"
| "js_lt (Num a) (Num b) = (a < b)"
| "js_lt PInf b = False"
| "js_lt a NInf = False"
| "js_lt a b = True"

definition js_gt :: "jsnum \<Rightarrow> jsnum \<Rightarrow> bool" where
  "js_gt a b = js_lt b a"

definition js_neq :: "jsnum \<Rightarrow> jsnum \<Rightarrow> bool" where
  "js_neq a b = (a = NaN \<or> b = NaN \<or> a \<noteq> b)"

text \<open>\<^verbatim>\<open>Math.sqrt\<close> and \<^verbatim>\<open>Math.round\<close> (which rounds a half upward, as \<open>round\<close> does).\<close>

fun js_sqrt :: "jsnum \<Rightarrow> jsnum" where
  "js_sqrt (Num a) = (if a < 0 then NaN else Num (sqrt a))"
| "js_sqrt PInf = PInf"
| "js_sqrt NInf = NaN"
| "js_sqrt NaN = NaN"

fun js_round :: "jsnum \<Rightarrow> jsnum" where
  "js_round (Num a) = Num (of_int (round a))"
| "js_round a = a"

section \<open>Coordinate transformation (coordinate-transform.ts)\<close>

text \<open>
  \<^verbatim>\<open>SVGTrackData\<close>; its fields \<^verbatim>\<open>name\<close>, \<^verbatim>\<open>width\<close> and \<^verbatim>\<open>height\<close> are written
  \<open>svg_name\<close>, \<open>svg_width\<close> and \<open>svg_height\<close>, apart from those of \<open>TrackData\<close> and of
  the dimensions.
\<close>

record SVGTrackData =
  svg_name :: string
  svgPath :: string
  viewBox :: string
  svg_width :: jsnum
  svg_height :: jsnum
  originalBounds :: Bounds

text \<open>The object \<^verbatim>\<open>{ width: number; height: number }\<close> of \<^verbatim>\<open>calculateOptimalDimensions\<close>.\<close>

record Dimensions =
  width :: jsnum
  height :: jsnum

text \<open>
  The private fields \<^verbatim>\<open>bounds\<close>, \<^verbatim>\<open>padding\<close>, \<^verbatim>\<open>width\<close>, \<^verbatim>\<open>height\<close> of class
  \<^verbatim>\<open>CoordinateTransform\<close>, as set by its constructor.
\<close>

record CoordinateTransform =
  this_bounds :: Bounds
  this_padding :: real
  this_width :: jsnum
  this_height :: jsnum

text \<open>A planar point \<^verbatim>\<open>{ x: number; y: number }\<close>, and one that remembers its GPS sample.\<close>

record XY =
  x :: jsnum
  y :: jsnum

record SVGPoint = XY +
  original :: GPXPoint

definition gpsToSVG :: "CoordinateTransform \<Rightarrow> real \<Rightarrow> real \<Rightarrow> XY" where
  "gpsToSVG this la lo =
     (let latRange = north (this_bounds this) - south (this_bounds this);
          lngRange = east (this_bounds this) - west (this_bounds this);
          paddedLatRange = latRange * (1 + this_padding this * 2);
          paddedLngRange = lngRange * (1 + this_padding this * 2);
          paddedSouth = south (this_bounds this) - latRange * this_padding this;
          paddedWest = west (this_bounds this) - lngRange * this_padding this;
          normalizedX = js_div (Num (lo - paddedWest)) (Num paddedLngRange);
          normalizedY = js_div (Num (la - paddedSouth)) (Num paddedLatRange);
          xv = js_mul normalizedX (this_width this);
          yv = js_mul (js_sub (Num 1) normalizedY) (this_height this)
      in \<lparr>x = xv, y = yv\<rparr>)"

text \<open>
  \<^verbatim>\<open>`0 0 ${this.width} ${this.height}`\<close>; \<open>str\<close> is JavaScript's conversion of a number to
  a string.
\<close>

definition getViewBox :: "(jsnum \<Rightarrow> string) \<Rightarrow> CoordinateTransform \<Rightarrow> string" where
  "getViewBox str this = ''0 0 '' @ str (this_width this) @ '' '' @ str (this_height this)"

definition calculateOptimalDimensions :: "Bounds \<Rightarrow> real \<Rightarrow> real \<Rightarrow> Dimensions" where
  "calculateOptimalDimensions bnds maxW maxH =
     (let latRange = north bnds - south bnds;
          lngRange = east bnds - west bnds;
          centerLat = (north bnds + south bnds) / 2;
          latCompressionFactor = cos ((centerLat * pi) / 180);
          adjustedLngRange = lngRange * latCompressionFactor;
          aspectRatio = js_div (Num adjustedLngRange) (Num latRange);
          w0 = Num maxW;
          h0 = js_div (Num maxW) aspectRatio;
          (w1, h1) = (if js_gt h0 (Num maxH)
                      then (js_mul (Num maxH) aspectRatio, Num maxH)
                      else (w0, h0))
      in \<lparr>width = js_round w1, height = js_round h1\<rparr>)"

section \<open>Path simplification and conversion (TrackToSVGConverter)\<close>

definition pointToLineDistance ::
  "'a XY_scheme \<Rightarrow> 'b XY_scheme \<Rightarrow> 'c XY_scheme \<Rightarrow> jsnum" where
  "pointToLineDistance point lineStart lineEnd =
     (let A = js_sub (x lineEnd) (x lineStart);
          B = js_sub (y lineEnd) (y lineStart);
          C = js_sub (x lineStart) (x point);
          D = js_sub (y lineStart) (y point);
          dot = js_add (js_mul A C) (js_mul B D);
          lenSq = js_add (js_mul A A) (js_mul B B);
          param = (if js_neq lenSq (Num 0) then js_div dot lenSq else Num (- 1));
          (xx, yy) =
            (if js_lt param (Num 0) then (x lineStart, y lineStart)
             else if js_gt param (Num 1) then (x lineEnd, y lineEnd)
             else (js_add (x lineStart) (js_mul param A),
                   js_add (y lineStart) (js_mul param B)));
          dx = js_sub (x point) xx;
          dy = js_sub (y point) yy
      in js_sqrt (js_add (js_mul dx dx) (js_mul dy dy)))"

text \<open>
  The search loop of \<^verbatim>\<open>simplifyPath\<close>, from \<^verbatim>\<open>maxDistance = 0, maxIndex = 0\<close>:
  \<^verbatim>\<open>for (let i = 1; i < points.length - 1; i++) {
    const distance = this.pointToLineDistance(points[i], start, end);
    if (distance > maxDistance) { maxDistance = distance; maxIndex = i; } }\<close>
\<close>

definition farthestStep :: "SVGPoint list \<Rightarrow> nat \<Rightarrow> jsnum \<times> nat \<Rightarrow> jsnum \<times> nat" where
  "farthestStep pts i st =
     (let distance = pointToLineDistance (pts ! i) (pts ! 0) (pts ! (length pts - 1))
      in if js_gt distance (fst st) then (distance, i) else st)"

definition farthestLoop :: "SVGPoint list \<Rightarrow> jsnum \<times> nat" where
  "farthestLoop pts = fold (farthestStep pts) [1..<length pts - 1] (Num 0, 0)"

text \<open>
  \<^verbatim>\<open>simplifyPath\<close> calls itself on \<^verbatim>\<open>points.slice(0, maxIndex + 1)\<close> and on
  \<^verbatim>\<open>points.slice(maxIndex)\<close>; with \<^verbatim>\<open>maxIndex = 0\<close> the second slice is the whole array
  again, so the recursion need not end. The result is an \<open>option\<close>, \<open>None\<close> for a call
  that does not return.
\<close>

partial_function (option) simplifyPath :: "SVGPoint list \<Rightarrow> jsnum \<Rightarrow> SVGPoint list option" where
  "simplifyPath pts tolerance =
     (if length pts \<le> 2 then Some pts
      else if js_gt (fst (farthestLoop pts)) tolerance then
        do {
          leftPart \<leftarrow> simplifyPath (take (snd (farthestLoop pts) + 1) pts) tolerance;
          rightPart \<leftarrow> simplifyPath (drop (snd (farthestLoop pts)) pts) tolerance;
          Some (butlast leftPart @ rightPart)
        }
      else Some [pts ! 0, pts ! (length pts - 1)])"

text \<open>
  The options object of \<^verbatim>\<open>convert\<close>: every field may be left out, and the whole object
  too; a field left out takes its default.
\<close>

record Options =
  maxWidth :: "real option"
  maxHeight :: "real option"
  padding :: "real option"
  simplify :: "bool option"
  simplifyTolerance :: "real option"

definition optionOr :: "Options option \<Rightarrow> (Options \<Rightarrow> 'a option) \<Rightarrow> 'a \<Rightarrow> 'a" where
  "optionOr opts field dflt =
     (case opts of None \<Rightarrow> dflt
      | Some r \<Rightarrow> (case field r of None \<Rightarrow> dflt | Some v \<Rightarrow> v))"

text \<open>
  The path string: \<^verbatim>\<open>M x y\<close> for the first point, then \<^verbatim>\<open> L x y\<close> for each further
  one; \<open>toFixed2\<close> is \<^verbatim>\<open>Number.prototype.toFixed(2)\<close>.
\<close>

definition buildPathData :: "(jsnum \<Rightarrow> string) \<Rightarrow> SVGPoint list \<Rightarrow> string" where
  "buildPathData toFixed2 pts =
     (if length pts > 0
      then fold (\<lambda>i pathData.
                   pathData @ '' L '' @ toFixed2 (x (pts ! i)) @ '' '' @ toFixed2 (y (pts ! i)))
             [1..<length pts]
             (''M '' @ toFixed2 (x (pts ! 0)) @ '' '' @ toFixed2 (y (pts ! 0)))
      else [])"

text \<open>
  \<^verbatim>\<open>TrackToSVGConverter.convert\<close>. It has no \<^verbatim>\<open>throw\<close>; it fails to return only where
  \<open>simplifyPath\<close> does.
\<close>

definition convert ::
  "(jsnum \<Rightarrow> string) \<Rightarrow> (jsnum \<Rightarrow> string) \<Rightarrow> TrackData \<Rightarrow> Options option
     \<Rightarrow> SVGTrackData option" where
  "convert toFixed2 str trackData opts =
     (let maxW = optionOr opts maxWidth 800;
          maxH = optionOr opts maxHeight 600;
          pad = optionOr opts padding 0.1;
          simpl = optionOr opts simplify True;
          tol = optionOr opts simplifyTolerance 0.001;
          optimalDimensions = calculateOptimalDimensions (bounds trackData) maxW maxH;
          transform = \<lparr>this_bounds = bounds trackData, this_padding = pad,
                       this_width = width optimalDimensions,
                       this_height = height optimalDimensions\<rparr>;
          pts = map (\<lambda>point.
                       let svgCoord = gpsToSVG transform (lat point) (lng point)
                       in \<lparr>x = x svgCoord, y = y svgCoord, original = point\<rparr>)
                  (points trackData)
      in do {
           pts' \<leftarrow> (if simpl \<and> length pts > 100 then simplifyPath pts (Num tol)
                    else Some pts);
           Some \<lparr>svg_name = name trackData,
                 svgPath = buildPathData toFixed2 pts',
                 viewBox = getViewBox str transform,
                 svg_width = width optimalDimensions,
                 svg_height = height optimalDimensions,
                 originalBounds = bounds trackData\<rparr>
         })"

section \<open>The distance the claims describe\<close>

text \<open>
  Following the words of the claim on the distance helper, not the code: the distance from a point to a segment
  by the projection parameter of the point on the segment, which is the scalar product of
  (point - start) and (end - start) over the squared length of the segment. The nearest
  point is the start when the parameter is below 0, which is forced (as \<open>- 1\<close>) for a
  segment whose ends coincide, the end when it is above 1, and the interpolated foot
  otherwise. It is stated to be compared with \<open>pointToLineDistance\<close>.
\<close>

definition claimedSegmentDistance :: "real \<times> real \<Rightarrow> real \<times> real \<Rightarrow> real \<times> real \<Rightarrow> real" where
  "claimedSegmentDistance p s e =
     (let lenSq = (fst e - fst s) * (fst e - fst s) + (snd e - snd s) * (snd e - snd s);
          t = (if lenSq \<noteq> 0
               then ((fst p - fst s) * (fst e - fst s) + (snd p - snd s) * (snd e - snd s)) / lenSq
               else - 1);
          q = (if t < 0 then s
               else if 1 < t then e
               else (fst s + t * (fst e - fst s), snd s + t * (snd e - snd s)))
      in sqrt ((fst p - fst q) * (fst p - fst q) + (snd p - snd q) * (snd p - snd q)))"

section \<open>Predicates used in the proofs\<close>

text \<open>
  The state \<^verbatim>\<open>(maxDistance, maxIndex)\<close> of the search loop on an array of length \<open>n\<close>:
  either still the initial one, or an interior index with a distance above 0.
\<close>

definition farthestInv :: "nat \<Rightarrow> jsnum \<times> nat \<Rightarrow> bool" where
  "farthestInv n st \<longleftrightarrow>
     st = (Num 0, 0) \<or> (1 \<le> snd st \<and> snd st < n - 1 \<and> js_lt (Num 0) (fst st))"

text \<open>What a returned simplification \<open>ys\<close> of \<open>pts\<close> satisfies.\<close>

definition simplifyOk :: "SVGPoint list \<Rightarrow> SVGPoint list \<Rightarrow> bool" where
  "simplifyOk pts ys \<longleftrightarrow>
     subseq ys pts
     \<and> (pts \<noteq> [] \<longrightarrow> ys \<noteq> [] \<and> hd ys = hd pts \<and> last ys = last pts)
     \<and> (length pts \<le> 2 \<longrightarrow> ys = pts)
     \<and> (2 \<le> length pts \<longrightarrow> 2 \<le> length ys)"

text \<open>
  A result \<open>ys\<close> returned at a finite tolerance keeps at least two points of a path that
  has two, and every larger finite tolerance returns a result that is not longer.
\<close>

definition shrinks :: "SVGPoint list \<Rightarrow> jsnum \<Rightarrow> SVGPoint list \<Rightarrow> bool" where
  "shrinks pts tolerance ys \<longleftrightarrow>
     (2 \<le> length pts \<longrightarrow> 2 \<le> length ys) \<and>
     (\<forall>t1 t2. tolerance = Num t1 \<and> t1 \<le> t2 \<longrightarrow>
        (\<exists>ys2. simplifyPath pts (Num t2) = Some ys2 \<and> length ys2 \<le> length ys))"

section \<open>Properties of the track metrics\<close>

subsection \<open>Elevation gain\<close>

lemma elevationStep_max:
  "elevationStep ps i g =
     g + max 0 (orZero (elevation (ps ! i)) - orZero (elevation (ps ! (i - 1))))"
  by (simp add: elevationStep_def Let_def max_def)

lemma fold_elevationStep:
  "fold (elevationStep ps) is g =
     g + (\<Sum>i\<leftarrow>is. max 0 (orZero (elevation (ps ! i)) - orZero (elevation (ps ! (i - 1)))))"
  by (induction "is" arbitrary: g) (simp_all add: elevationStep_max)

lemma no_elevation_sum:
  assumes "\<not> list_ex (\<lambda>p. elevation p \<noteq> None) ps"
  shows "(\<Sum>i = 1..<length ps.
            max 0 (orZero (elevation (ps ! i)) - orZero (elevation (ps ! (i - 1))))) = 0"
proof -
  have none: "\<And>i. i < length ps \<Longrightarrow> elevation (ps ! i) = None"
    using assms by (auto simp: list_ex_iff)
  have "\<And>i. i \<in> {1..<length ps} \<Longrightarrow>
      max 0 (orZero (elevation (ps ! i)) - orZero (elevation (ps ! (i - 1)))) = 0"
  proof -
    fix i assume "i \<in> {1..<length ps}"
    then have "i < length ps" "i - 1 < length ps" by auto
    then show "max 0 (orZero (elevation (ps ! i)) - orZero (elevation (ps ! (i - 1)))) = 0"
      using none by (simp add: orZero_def)
  qed
  then show ?thesis by (rule sum.neutral [OF ballI])
qed

lemma elevationGainLoop_sum:
  "elevationGainLoop ps =
     (\<Sum>i = 1..<length ps.
        max 0 (orZero (elevation (ps ! i)) - orZero (elevation (ps ! (i - 1)))))"
proof (cases "list_ex (\<lambda>p. elevation p \<noteq> None) ps")
  case True
  then show ?thesis
    by (simp add: elevationGainLoop_def fold_elevationStep interv_sum_list_conv_sum_set_nat)
next
  case False
  then show ?thesis
    using no_elevation_sum [OF False] by (simp add: elevationGainLoop_def)
qed

lemma elevationGainLoop_nonneg: "0 \<le> elevationGainLoop ps"
  unfolding elevationGainLoop_sum by (rule sum_nonneg) simp

lemma orZero_case: "orZero v = (case v of None \<Rightarrow> 0 | Some e \<Rightarrow> e)"
  by (simp add: orZero_def split: option.splits)

text \<open>
  C1 (as amended). The gain is accumulated over temporally consecutive pairs only: it is
  the sum over the indices \<open>i\<close> from 1 of the positive part of the difference between
  sample \<open>i\<close> and sample \<open>i - 1\<close>, where a sample without elevation is read as elevation
  0. A pair whose two samples carry elevation contributes their positive delta; a pair
  with a missing elevation is not skipped, its delta is taken against the value 0, never
  against an earlier sample.
\<close>

theorem elevationGain_consecutive_pairs:
  "elevationGainLoop ps =
     (\<Sum>i = 1..<length ps.
        max 0 ((case elevation (ps ! i) of None \<Rightarrow> 0 | Some e \<Rightarrow> e)
             - (case elevation (ps ! (i - 1)) of None \<Rightarrow> 0 | Some e \<Rightarrow> e)))"
  using elevationGainLoop_sum [of ps] by (simp only: orZero_case)

theorem elevationGain_consecutive_pairs_witness:
  "elevationGainLoop
     [\<lparr>lat = 0, lng = 0, elevation = Some 10, timestamp = None\<rparr>,
      \<lparr>lat = 0, lng = 0, elevation = Some 40, timestamp = None\<rparr>,
      \<lparr>lat = 0, lng = 0, elevation = None, timestamp = None\<rparr>,
      \<lparr>lat = 0, lng = 0, elevation = Some 25, timestamp = None\<rparr>] = 55"
  using elevationGain_consecutive_pairs
    [of "[\<lparr>lat = 0, lng = 0, elevation = Some 10, timestamp = None\<rparr>,
          \<lparr>lat = 0, lng = 0, elevation = Some 40, timestamp = None\<rparr>,
          \<lparr>lat = 0, lng = 0, elevation = None, timestamp = None\<rparr>,
          \<lparr>lat = 0, lng = 0, elevation = Some 25, timestamp = None\<rparr>]"]
  by (simp add: atLeastLessThanSuc)

text \<open>
  C1 fails as stated: in a track of two samples of which the first has no elevation and
  the second is at 100, the only pair lacks an elevation and still contributes 100.
\<close>

theorem elevationGain_missing_sample_counterexample:
  "elevationGainLoop
     [\<lparr>lat = 0, lng = 0, elevation = None, timestamp = None\<rparr>,
      \<lparr>lat = 0, lng = 0, elevation = Some 100, timestamp = None\<rparr>] = 100"
  by (simp add: elevationGainLoop_def elevationStep_def orZero_def)

text \<open>
  C6 (as amended). The metric stored by \<open>parseGPXFile\<close> is absent exactly when the
  accumulated gain is zero, which covers the track without any elevation and also the
  track whose samples carry elevation but never climb; when it is present it is the
  accumulated gain, and that is positive.
\<close>

theorem elevationGain_metric_presence:
  assumes "parseGPXFile trackName ps = Inr t"
  shows "(elevationGain (metadata t) = None \<longleftrightarrow> elevationGainLoop ps = 0)
       \<and> (\<forall>g. elevationGain (metadata t) = Some g \<longrightarrow> g = elevationGainLoop ps \<and> 0 < g)
       \<and> (\<not> list_ex (\<lambda>p. elevation p \<noteq> None) ps \<longrightarrow> elevationGain (metadata t) = None)"
proof -
  have t: "elevationGain (metadata t) =
      (if elevationGainLoop ps > 0 then Some (elevationGainLoop ps) else None)"
    using assms by (auto simp: parseGPXFile_def Let_def split: if_splits)
  have absent: "\<not> list_ex (\<lambda>p. elevation p \<noteq> None) ps \<Longrightarrow> elevationGainLoop ps = 0"
    by (simp add: elevationGainLoop_def)
  show ?thesis
    using t absent elevationGainLoop_nonneg [of ps] by (auto split: if_splits)
qed

theorem elevationGain_metric_presence_witness:
  "parseGPXFile ''t''
     [\<lparr>lat = 0, lng = 0, elevation = Some 10, timestamp = None\<rparr>,
      \<lparr>lat = 0, lng = 0, elevation = Some 30, timestamp = None\<rparr>] \<noteq> Inl NoTrackPoints
   \<and> elevationGainLoop
        [\<lparr>lat = 0, lng = 0, elevation = Some 10, timestamp = None\<rparr>,
         \<lparr>lat = 0, lng = 0, elevation = Some 30, timestamp = None\<rparr>] = 20
   \<and> (case parseGPXFile ''t''
        [\<lparr>lat = 0, lng = 0, elevation = Some 10, timestamp = None\<rparr>,
         \<lparr>lat = 0, lng = 0, elevation = Some 30, timestamp = None\<rparr>]
       of Inl e \<Rightarrow> False | Inr t \<Rightarrow> elevationGain (metadata t) = Some 20)"
proof -
  let ?ps = "[\<lparr>lat = 0, lng = 0, elevation = Some 10, timestamp = None\<rparr>,
              \<lparr>lat = 0, lng = 0, elevation = Some (30::real), timestamp = None\<rparr>]"
  obtain t where t: "parseGPXFile ''t'' ?ps = Inr t"
    by (simp add: parseGPXFile_def Let_def)
  have g: "elevationGainLoop ?ps = 20"
    by (simp add: elevationGainLoop_def elevationStep_def orZero_def)
  from elevationGain_metric_presence [OF t] g
  have "elevationGain (metadata t) = Some 20"
    by (cases "elevationGain (metadata t)") auto
  with t g show ?thesis by simp
qed

text \<open>
  C6 fails as stated: both samples of this track carry elevation, the track descends, the
  accumulated gain is zero, and the metric is absent.
\<close>

theorem elevationGain_zero_absent_counterexample:
  "(case parseGPXFile ''t''
        [\<lparr>lat = 0, lng = 0, elevation = Some 100, timestamp = None\<rparr>,
         \<lparr>lat = 0, lng = 0, elevation = Some 50, timestamp = None\<rparr>]
    of Inl e \<Rightarrow> False | Inr t \<Rightarrow> elevationGain (metadata t) = None)"
  by (simp add: parseGPXFile_def elevationGainLoop_def elevationStep_def orZero_def Let_def)

subsection \<open>Duration\<close>

lemma findTimestamp_hd:
  "findTimestamp ps =
     (if List.map_filter timestamp ps = [] then None
      else Some (hd (List.map_filter timestamp ps)))"
  by (induction ps) (auto simp: findTimestamp_def split: option.splits)

lemma map_filter_rev: "List.map_filter f (rev xs) = rev (List.map_filter f xs)"
  by (simp add: List.map_filter_def rev_map rev_filter)

lemma computeDuration_eq:
  "computeDuration ps =
     (if List.map_filter timestamp ps = [] then None
      else Some (last (List.map_filter timestamp ps) - hd (List.map_filter timestamp ps)))"
  by (simp add: computeDuration_def findTimestamp_hd map_filter_rev hd_rev)

text \<open>
  C7 (as amended). With \<open>ts\<close> the timestamps that are present, in the original order, the
  duration stored by \<open>parseGPXFile\<close> is the last of \<open>ts\<close> minus the first of \<open>ts\<close>, whatever
  their order in time, and it is absent exactly when no sample has a timestamp. A track
  with a single timestamped sample has the duration 0.
\<close>

theorem duration_last_minus_first:
  assumes "parseGPXFile trackName ps = Inr t"
  shows "duration (metadata t) =
           (if List.map_filter timestamp ps = [] then None
            else Some (last (List.map_filter timestamp ps) - hd (List.map_filter timestamp ps)))"
proof -
  have "duration (metadata t) = computeDuration ps"
    using assms by (auto simp: parseGPXFile_def Let_def split: if_splits)
  then show ?thesis by (simp only: computeDuration_eq)
qed

theorem duration_last_minus_first_witness:
  "(case parseGPXFile ''t''
        [\<lparr>lat = 0, lng = 0, elevation = None, timestamp = Some 9000\<rparr>,
         \<lparr>lat = 0, lng = 0, elevation = None, timestamp = None\<rparr>,
         \<lparr>lat = 0, lng = 0, elevation = None, timestamp = Some 4000\<rparr>]
    of Inl e \<Rightarrow> False | Inr t \<Rightarrow> duration (metadata t) = Some (- 5000))"
proof -
  let ?ps = "[\<lparr>lat = 0, lng = 0, elevation = None, timestamp = Some 9000\<rparr>,
              \<lparr>lat = 0, lng = 0, elevation = None, timestamp = None\<rparr>,
              \<lparr>lat = 0::real, lng = 0::real, elevation = None :: real option,
                timestamp = Some (4000::int)\<rparr>]"
  obtain t where t: "parseGPXFile ''t'' ?ps = Inr t"
    by (simp add: parseGPXFile_def Let_def)
  from duration_last_minus_first [OF t] have "duration (metadata t) = Some (- 5000)"
    by simp
  with t show ?thesis by simp
qed

text \<open>
  C7 fails as stated: a track whose only sample is timestamped has fewer than two
  timestamped samples, and its duration is present, with the value 0.
\<close>

theorem duration_single_sample_counterexample:
  "(case parseGPXFile ''t'' [\<lparr>lat = 0, lng = 0, elevation = None, timestamp = Some 5\<rparr>]
    of Inl e \<Rightarrow> False | Inr t \<Rightarrow> duration (metadata t) = Some 0)"
  by (simp add: parseGPXFile_def computeDuration_def findTimestamp_def Let_def)

subsection \<open>Bounds\<close>

lemma mathMax_eq: "vs \<noteq> [] \<Longrightarrow> mathMax vs = Max (set vs)"
  by (cases vs) (simp_all add: Max.set_eq_fold [symmetric])

lemma mathMin_eq: "vs \<noteq> [] \<Longrightarrow> mathMin vs = Min (set vs)"
  by (cases vs) (simp_all add: Min.set_eq_fold [symmetric])

lemma parseGPXFile_bounds:
  "ps \<noteq> [] \<Longrightarrow>
   \<exists>t. parseGPXFile trackName ps = Inr t
     \<and> north (bounds t) = Max (lat ` set ps)
     \<and> south (bounds t) = Min (lat ` set ps)
     \<and> east (bounds t) = Max (lng ` set ps)
     \<and> west (bounds t) = Min (lng ` set ps)"
  by (simp add: parseGPXFile_def Let_def mathMax_eq mathMin_eq)

section \<open>Properties of the projection\<close>

subsection \<open>Canvas size\<close>

lemma cos_centerLat_nonneg:
  assumes "- 90 \<le> (s::real)" "s \<le> n" "n \<le> 90"
  shows "0 \<le> cos (((n + s) / 2 * pi) / 180)"
proof (rule cos_ge_zero)
  have c: "- 90 \<le> (n + s) / 2" "(n + s) / 2 \<le> 90" using assms by simp_all
  have "(n + s) / 2 * pi \<le> 90 * pi"
    using c(2) by (intro mult_right_mono) simp_all
  then show "((n + s) / 2 * pi) / 180 \<le> pi / 2" by simp
  have "- 90 * pi \<le> (n + s) / 2 * pi"
    using c(1) by (intro mult_right_mono) simp_all
  then show "- (pi / 2) \<le> ((n + s) / 2 * pi) / 180" by simp
qed

lemma round_Ints: "v \<in> \<int> \<Longrightarrow> of_int (round v) = (v::real)"
  by (auto elim: Ints_cases)

lemma dims_eq:
  assumes "south b < north b" "0 < maxW"
  defines "ar \<equiv> ((east b - west b) * cos (((north b + south b) / 2 * pi) / 180))
                   / (north b - south b)"
  shows "calculateOptimalDimensions b maxW maxH =
     (if ar = 0 \<or> maxH < maxW / ar
      then \<lparr>width = Num (of_int (round (maxH * ar))), height = Num (of_int (round maxH))\<rparr>
      else \<lparr>width = Num (of_int (round maxW)), height = Num (of_int (round (maxW / ar)))\<rparr>)"
  using assms(1,2)
  by (simp add: calculateOptimalDimensions_def Let_def ar_def js_gt_def infOfSign_def)

text \<open>
  C5 (as amended). For bounds of positive latitude span (with west not beyond east and
  latitudes between -90 and 90) and positive integer \<open>maxW\<close> and \<open>maxH\<close>, with \<open>ar\<close> the
  aspect ratio: the canvas is \<open>maxW\<close> wide and \<open>maxW / ar\<close> high, unless that height
  exceeds \<open>maxH\<close> (an aspect ratio of 0 gives the height \<^verbatim>\<open>Infinity\<close>), in which case it
  is \<open>maxH\<close> high and \<open>maxH * ar\<close> wide; both dimensions are rounded to the nearest
  integer, nothing lifts them to 1; and the width is at most \<open>maxW\<close>, the height at most
  \<open>maxH\<close>, with equality for one of the two.
\<close>

theorem calculateOptimalDimensions_fits:
  assumes "south b < north b" "west b \<le> east b" "- 90 \<le> south b" "north b \<le> 90"
    and "0 < maxW" "0 < maxH" "maxW \<in> \<int>" "maxH \<in> \<int>"
  shows "let ar = ((east b - west b) * cos (((north b + south b) / 2 * pi) / 180))
                    / (north b - south b);
             d = calculateOptimalDimensions b maxW maxH
         in 0 \<le> ar
          \<and> d = (if ar = 0 \<or> maxH < maxW / ar
                 then \<lparr>width = Num (of_int (round (maxH * ar))), height = Num maxH\<rparr>
                 else \<lparr>width = Num maxW, height = Num (of_int (round (maxW / ar)))\<rparr>)
          \<and> (\<exists>w h :: int. d = \<lparr>width = Num (of_int w), height = Num (of_int h)\<rparr>
                \<and> 0 \<le> w \<and> 0 \<le> h
                \<and> of_int w \<le> maxW \<and> of_int h \<le> maxH
                \<and> (of_int w = maxW \<or> of_int h = maxH))"
proof -
  define ar where
    "ar = ((east b - west b) * cos (((north b + south b) / 2 * pi) / 180)) / (north b - south b)"
  have "0 \<le> cos (((north b + south b) / 2 * pi) / 180)"
    using assms(1,3,4) by (intro cos_centerLat_nonneg) simp_all
  then have ar0: "0 \<le> ar"
    unfolding ar_def using assms(1,2)
    by (intro divide_nonneg_nonneg mult_nonneg_nonneg) simp_all
  have rW: "of_int (round maxW) = maxW" and rH: "of_int (round maxH) = maxH"
    using assms(7,8) by (simp_all add: round_Ints)
  have d: "calculateOptimalDimensions b maxW maxH =
     (if ar = 0 \<or> maxH < maxW / ar
      then \<lparr>width = Num (of_int (round (maxH * ar))), height = Num maxH\<rparr>
      else \<lparr>width = Num maxW, height = Num (of_int (round (maxW / ar)))\<rparr>)"
    using dims_eq [OF assms(1) assms(5), of maxH] by (simp add: ar_def rW rH)
  have ex: "\<exists>w h :: int. calculateOptimalDimensions b maxW maxH
                  = \<lparr>width = Num (of_int w), height = Num (of_int h)\<rparr>
                \<and> 0 \<le> w \<and> 0 \<le> h
                \<and> of_int w \<le> maxW \<and> of_int h \<le> maxH
                \<and> (of_int w = maxW \<or> of_int h = maxH)"
  proof (cases "ar = 0 \<or> maxH < maxW / ar")
    case True
    have le: "maxH * ar \<le> maxW"
    proof (cases "ar = 0")
      case True
      then show ?thesis using assms(5) by simp
    next
      case False
      with ar0 \<open>ar = 0 \<or> maxH < maxW / ar\<close> have "0 < ar" "maxH < maxW / ar" by simp_all
      then show ?thesis by (simp add: pos_less_divide_eq)
    qed
    have "round (maxH * ar) \<le> round maxW" using le by (rule round_mono)
    then have w: "of_int (round (maxH * ar)) \<le> maxW"
      using rW by (metis of_int_le_iff)
    have "0 \<le> maxH * ar" using ar0 assms(6) by simp
    then have "round (0::real) \<le> round (maxH * ar)" by (rule round_mono)
    then have w0: "0 \<le> round (maxH * ar)" by simp
    have h0: "0 \<le> round maxH"
      using round_mono [of 0 maxH] assms(6) by simp
    show ?thesis
      using True d w w0 h0 rH
      by (intro exI [of _ "round (maxH * ar)"] exI [of _ "round maxH"]) simp
  next
    case False
    then have "0 < ar" "maxW / ar \<le> maxH" using ar0 by simp_all
    have "round (maxW / ar) \<le> round maxH" using \<open>maxW / ar \<le> maxH\<close> by (rule round_mono)
    then have h: "of_int (round (maxW / ar)) \<le> maxH"
      using rH by (metis of_int_le_iff)
    have "0 \<le> maxW / ar" using \<open>0 < ar\<close> assms(5) by simp
    then have "round (0::real) \<le> round (maxW / ar)" by (rule round_mono)
    then have h0: "0 \<le> round (maxW / ar)" by simp
    have w0: "0 \<le> round maxW"
      using round_mono [of 0 maxW] assms(5) by simp
    show ?thesis
      using False d h h0 w0 rW
      by (intro exI [of _ "round maxW"] exI [of _ "round (maxW / ar)"]) simp
  qed
  show ?thesis
    unfolding Let_def using ar0 d ex by (simp add: ar_def)
qed

theorem calculateOptimalDimensions_fits_witness:
  "(- 1 :: real) < 1 \<and> (0::real) \<le> 2 \<and> (- 90 :: real) \<le> - 1 \<and> (1::real) \<le> 90
   \<and> (0::real) < 800 \<and> (0::real) < 600 \<and> (800::real) \<in> \<int> \<and> (600::real) \<in> \<int>
   \<and> calculateOptimalDimensions \<lparr>north = 1, south = - 1, east = 2, west = 0\<rparr> 800 600
        = \<lparr>width = Num 600, height = Num 600\<rparr>"
  using calculateOptimalDimensions_fits
    [of "\<lparr>north = 1, south = - 1, east = 2, west = 0\<rparr>" 800 600]
  by (simp add: Let_def)

text \<open>
  C5 fails as stated: a track two degrees of latitude high and a thousandth of a degree
  wide gets a canvas of width 0, which is not at least 1.
\<close>

theorem calculateOptimalDimensions_zero_width_counterexample:
  "calculateOptimalDimensions \<lparr>north = 1, south = - 1, east = 1 / 1000, west = 0\<rparr> 800 600
     = \<lparr>width = Num 0, height = Num 600\<rparr>"
  by (simp add: calculateOptimalDimensions_def Let_def js_gt_def round_def)

subsection \<open>Degenerate bounds\<close>

lemma degenerate_dims_point:
  "north b = south b \<Longrightarrow> east b = west b \<Longrightarrow>
   calculateOptimalDimensions b maxW maxH = \<lparr>width = Num (of_int (round maxW)), height = NaN\<rparr>"
  by (simp add: calculateOptimalDimensions_def Let_def infOfSign_def js_gt_def)

lemma degenerate_dims_lat:
  assumes "north b = south b" "west b < east b" "- 90 < south b" "south b < 90" "0 \<le> maxH"
  shows "calculateOptimalDimensions b maxW maxH
           = \<lparr>width = Num (of_int (round maxW)), height = Num 0\<rparr>"
proof -
  have "- 90 * pi < south b * pi" "south b * pi < 90 * pi"
    using mult_strict_right_mono [OF assms(3) pi_gt_zero]
      mult_strict_right_mono [OF assms(4) pi_gt_zero] by simp_all
  then have "- (pi / 2) < (south b * pi) / 180" "(south b * pi) / 180 < pi / 2"
    by simp_all
  then have "0 < cos ((south b * pi) / 180)" by (rule cos_gt_zero_pi)
  then have "0 < (east b - west b) * cos ((south b * pi) / 180)"
    using assms(2) by simp
  then show ?thesis
    using assms(1,5)
    by (simp add: calculateOptimalDimensions_def Let_def infOfSign_def js_gt_def)
qed

lemma degenerate_dims_lng:
  assumes "south b < north b" "east b = west b" "0 < maxW"
  shows "calculateOptimalDimensions b maxW maxH
           = \<lparr>width = Num 0, height = Num (of_int (round maxH))\<rparr>"
  using assms
  by (simp add: calculateOptimalDimensions_def Let_def infOfSign_def js_gt_def)

lemma degenerate_y:
  "north (this_bounds T) = south (this_bounds T) \<Longrightarrow>
   y (gpsToSVG T (south (this_bounds T)) lo) = NaN"
  by (simp add: gpsToSVG_def Let_def infOfSign_def js_sub_def)

lemma degenerate_x:
  "east (this_bounds T) = west (this_bounds T) \<Longrightarrow>
   x (gpsToSVG T la (west (this_bounds T))) = NaN"
  by (simp add: gpsToSVG_def Let_def infOfSign_def)

text \<open>
  C2 (as amended). Degenerate bounds are not special-cased: the division by the zero
  span is carried out, nothing raises, and the outcome follows the IEEE rules. For bounds
  that are a single point the canvas is \<open>maxW\<close> (rounded) by \<^verbatim>\<open>NaN\<close>. For a zero latitude
  span and a positive longitude span the aspect ratio is \<^verbatim>\<open>Infinity\<close> and the canvas
  height is 0; for a zero longitude span and a positive latitude span the aspect ratio is
  0 and the canvas width is 0 (latitudes between -90 and 90 in both cases). With a zero
  latitude span every point at the latitude of
  the track is projected to the ordinate \<^verbatim>\<open>NaN\<close>, and with a zero longitude span every
  point at the longitude of the track is projected to the abscissa \<^verbatim>\<open>NaN\<close>, whatever the
  canvas and the padding.
\<close>

theorem degenerate_bounds_not_special_cased:
  "(north b = south b \<and> east b = west b \<longrightarrow>
      calculateOptimalDimensions b maxW maxH
        = \<lparr>width = Num (of_int (round maxW)), height = NaN\<rparr>)
   \<and> (north b = south b \<and> west b < east b \<and> - 90 < south b \<and> south b < 90 \<and> 0 \<le> maxH \<longrightarrow>
      calculateOptimalDimensions b maxW maxH
        = \<lparr>width = Num (of_int (round maxW)), height = Num 0\<rparr>)
   \<and> (south b < north b \<and> - 90 \<le> south b \<and> north b \<le> 90 \<and> east b = west b \<and> 0 < maxW \<longrightarrow>
      calculateOptimalDimensions b maxW maxH
        = \<lparr>width = Num 0, height = Num (of_int (round maxH))\<rparr>)
   \<and> (north (this_bounds T) = south (this_bounds T) \<longrightarrow>
      y (gpsToSVG T (south (this_bounds T)) lo) = NaN)
   \<and> (east (this_bounds T) = west (this_bounds T) \<longrightarrow>
      x (gpsToSVG T la (west (this_bounds T))) = NaN)"
  by (intro conjI impI)
     (simp_all add: degenerate_dims_point degenerate_dims_lat degenerate_dims_lng
        degenerate_y degenerate_x)

theorem degenerate_bounds_not_special_cased_witness:
  "calculateOptimalDimensions \<lparr>north = 10, south = 10, east = 20, west = 20\<rparr> 800 600
     = \<lparr>width = Num 800, height = NaN\<rparr>
   \<and> calculateOptimalDimensions \<lparr>north = 10, south = 10, east = 21, west = 20\<rparr> 800 600
     = \<lparr>width = Num 800, height = Num 0\<rparr>
   \<and> calculateOptimalDimensions \<lparr>north = 11, south = 10, east = 20, west = 20\<rparr> 800 600
     = \<lparr>width = Num 0, height = Num 600\<rparr>
   \<and> y (gpsToSVG \<lparr>this_bounds = \<lparr>north = 10, south = 10, east = 20, west = 20\<rparr>,
                   this_padding = 1 / 10, this_width = Num 800, this_height = NaN\<rparr> 10 20) = NaN
   \<and> x (gpsToSVG \<lparr>this_bounds = \<lparr>north = 10, south = 10, east = 20, west = 20\<rparr>,
                   this_padding = 1 / 10, this_width = Num 800, this_height = NaN\<rparr> 10 20) = NaN"
proof -
  let ?T = "\<lparr>this_bounds = \<lparr>north = 10, south = 10, east = 20, west = 20\<rparr>,
             this_padding = 1 / 10, this_width = Num 800, this_height = NaN\<rparr>"
  note p = degenerate_bounds_not_special_cased
    [of "\<lparr>north = 10, south = 10, east = 20, west = 20\<rparr>" 800 600 ?T 20 10]
  note la = degenerate_bounds_not_special_cased
    [of "\<lparr>north = 10, south = 10, east = 21, west = 20\<rparr>" 800 600 ?T 20 10]
  note lo = degenerate_bounds_not_special_cased
    [of "\<lparr>north = 11, south = 10, east = 20, west = 20\<rparr>" 800 600 ?T 20 10]
  from p have "calculateOptimalDimensions \<lparr>north = 10, south = 10, east = 20, west = 20\<rparr> 800 600
      = \<lparr>width = Num 800, height = NaN\<rparr>"
    and "y (gpsToSVG ?T 10 20) = NaN" and "x (gpsToSVG ?T 10 20) = NaN"
    by simp_all
  moreover from la
  have "calculateOptimalDimensions \<lparr>north = 10, south = 10, east = 21, west = 20\<rparr> 800 600
      = \<lparr>width = Num 800, height = Num 0\<rparr>"
    by simp
  moreover from lo
  have "calculateOptimalDimensions \<lparr>north = 11, south = 10, east = 20, west = 20\<rparr> 800 600
      = \<lparr>width = Num 0, height = Num 600\<rparr>"
    by simp
  ultimately show ?thesis by simp
qed

text \<open>
  C2 fails as stated: for the single-point track at latitude 10 and longitude 20, with
  the default options, the canvas is 800 by \<^verbatim>\<open>NaN\<close>, not the 1:1 fallback, and the point
  is projected to \<^verbatim>\<open>(NaN, NaN)\<close>, which is no finite coordinate.
\<close>

theorem degenerate_single_point_counterexample:
  "calculateOptimalDimensions \<lparr>north = 10, south = 10, east = 20, west = 20\<rparr> 800 600
     = \<lparr>width = Num 800, height = NaN\<rparr>
   \<and> gpsToSVG \<lparr>this_bounds = \<lparr>north = 10, south = 10, east = 20, west = 20\<rparr>,
                this_padding = 1 / 10, this_width = Num 800, this_height = NaN\<rparr> 10 20
     = \<lparr>x = NaN, y = NaN\<rparr>"
  by (simp add: calculateOptimalDimensions_def gpsToSVG_def Let_def js_gt_def infOfSign_def
      js_sub_def)

section \<open>Properties of the simplifier\<close>

subsection \<open>The distance helper\<close>

lemma js_sub_Num: "js_sub (Num a) (Num b) = Num (a - b)"
  by (simp add: js_sub_def)

lemma pointToLineDistance_Num:
  assumes "x p = Num px" "y p = Num py" "x s = Num sx" "y s = Num sy"
    "x e = Num ex" "y e = Num ey"
  shows "pointToLineDistance p s e =
     (let lenSq = (ex - sx) * (ex - sx) + (ey - sy) * (ey - sy);
          param = (if lenSq \<noteq> 0
                   then ((ex - sx) * (sx - px) + (ey - sy) * (sy - py)) / lenSq else - 1);
          t = (if param < 0 then 0 else if 1 < param then 1 else param);
          qx = sx + t * (ex - sx);
          qy = sy + t * (ey - sy)
      in Num (sqrt ((px - qx) * (px - qx) + (py - qy) * (py - qy))))"
proof -
  have nn: "\<not> (a * a + b * b < 0)" for a b :: real
    by (simp add: not_less)
  show ?thesis
    using assms
    by (simp add: pointToLineDistance_def js_sub_Num js_neq_def js_gt_def Let_def nn)
qed

lemma pointToLineDistance_finite:
  assumes "x p = Num px" "y p = Num py" "x s = Num sx" "y s = Num sy"
    "x e = Num ex" "y e = Num ey"
  shows "\<exists>d\<ge>0. pointToLineDistance p s e = Num d"
proof -
  have "0 \<le> sqrt (a * a + b * b)" for a b :: real by simp
  then show ?thesis
    unfolding pointToLineDistance_Num [OF assms] Let_def by blast
qed

text \<open>
  C10. The claim does not hold of the code, which computes its parameter from
  (start - point) where the projection parameter has (point - start): the parameter of
  the code is the projection parameter negated. For the point (3, 4) and the segment
  from (0, 0) to (10, 0) the projection parameter is 0.3, the foot is (3, 0) and the
  distance of the claim is 4; the code has the parameter -0.3, measures to the start and
  returns 5. For the point (-4, 6) and the segment from (0, 0) to (8, 0) the projection
  parameter is -0.5 and the distance of the claim is the one to the start, the square
  root of 52; the code has the parameter 0.5, measures to (4, 0) and returns 10.
\<close>

theorem pointToLineDistance_negated_parameter:
  "pointToLineDistance \<lparr>x = Num 3, y = Num 4\<rparr> \<lparr>x = Num 0, y = Num 0\<rparr> \<lparr>x = Num 10, y = Num 0\<rparr>
     = Num 5
   \<and> claimedSegmentDistance (3, 4) (0, 0) (10, 0) = 4
   \<and> pointToLineDistance \<lparr>x = Num (- 4), y = Num 6\<rparr> \<lparr>x = Num 0, y = Num 0\<rparr>
         \<lparr>x = Num 8, y = Num 0\<rparr>
     = Num 10
   \<and> claimedSegmentDistance (- 4, 6) (0, 0) (8, 0) = sqrt 52
   \<and> sqrt 52 < 10"
proof -
  have s25: "sqrt 25 = 5" and s16: "sqrt 16 = 4" and s100: "sqrt 100 = 10"
    by (rule real_sqrt_unique; simp)+
  have lt: "sqrt 52 < 10"
    using real_sqrt_less_mono [of 52 100] s100 by simp
  have c1: "pointToLineDistance \<lparr>x = Num 3, y = Num 4\<rparr> \<lparr>x = Num 0, y = Num 0\<rparr>
      \<lparr>x = Num 10, y = Num 0\<rparr> = Num 5"
    by (simp add: pointToLineDistance_def js_sub_Num js_neq_def js_gt_def Let_def s25)
  have c2: "pointToLineDistance \<lparr>x = Num (- 4), y = Num 6\<rparr> \<lparr>x = Num 0, y = Num 0\<rparr>
      \<lparr>x = Num 8, y = Num 0\<rparr> = Num 10"
    by (simp add: pointToLineDistance_def js_sub_Num js_neq_def js_gt_def Let_def s100)
  have d1: "claimedSegmentDistance (3, 4) (0, 0) (10, 0) = 4"
    by (simp add: claimedSegmentDistance_def Let_def s16)
  have d2: "claimedSegmentDistance (- 4, 6) (0, 0) (8, 0) = sqrt 52"
    by (simp add: claimedSegmentDistance_def Let_def)
  from c1 d1 c2 d2 lt show ?thesis by simp
qed

subsection \<open>The search loop\<close>

lemma js_lt_trans: "js_lt a b \<Longrightarrow> js_lt b c \<Longrightarrow> js_lt a c"
  by (cases a; cases b; cases c) simp_all

lemma farthestStep_inv:
  assumes "farthestInv (length pts) st" "1 \<le> i" "i < length pts - 1"
  shows "farthestInv (length pts) (farthestStep pts i st)"
proof (cases "js_gt (pointToLineDistance (pts ! i) (pts ! 0) (pts ! (length pts - 1))) (fst st)")
  case True
  then have "js_lt (fst st) (pointToLineDistance (pts ! i) (pts ! 0) (pts ! (length pts - 1)))"
    by (simp add: js_gt_def)
  moreover have "fst st = Num 0 \<or> js_lt (Num 0) (fst st)"
    using assms(1) by (auto simp: farthestInv_def)
  ultimately have
    "js_lt (Num 0) (pointToLineDistance (pts ! i) (pts ! 0) (pts ! (length pts - 1)))"
    by (auto intro: js_lt_trans)
  with True assms(2,3) show ?thesis
    by (simp add: farthestStep_def farthestInv_def Let_def)
next
  case False
  with assms(1) show ?thesis by (simp add: farthestStep_def Let_def)
qed

lemma fold_farthestStep_inv:
  "farthestInv (length pts) st \<Longrightarrow> \<forall>i\<in>set is. 1 \<le> i \<and> i < length pts - 1 \<Longrightarrow>
   farthestInv (length pts) (fold (farthestStep pts) is st)"
  by (induction "is" arbitrary: st) (simp_all add: farthestStep_inv)

lemma farthestLoop_inv: "farthestInv (length pts) (farthestLoop pts)"
  unfolding farthestLoop_def
  by (rule fold_farthestStep_inv) (simp_all add: farthestInv_def)

lemma farthestLoop_index_less: "length pts > 2 \<Longrightarrow> snd (farthestLoop pts) < length pts - 1"
  using farthestLoop_inv [of pts] by (auto simp: farthestInv_def)

lemma farthestLoop_index_pos:
  assumes "js_gt (fst (farthestLoop pts)) tolerance" "\<not> js_lt tolerance (Num 0)"
  shows "1 \<le> snd (farthestLoop pts)"
proof -
  have "farthestLoop pts \<noteq> (Num 0, 0)"
    using assms by (auto simp: js_gt_def)
  then show ?thesis
    using farthestLoop_inv [of pts] by (simp add: farthestInv_def)
qed

subsection \<open>The output is a subsequence that keeps both ends\<close>

lemma subseq_ends:
  assumes "2 \<le> length pts"
  shows "subseq [pts ! 0, pts ! (length pts - 1)] pts"
proof -
  from assms obtain a rest where pts: "pts = a # rest" and rest: "rest \<noteq> []"
    by (cases pts) (auto simp: Suc_le_eq)
  have "subseq [last rest] (butlast rest @ [last rest])"
    by (rule list_emb_append2) simp
  then have "subseq [last rest] rest"
    using rest by simp
  moreover have "pts ! (length pts - 1) = last rest"
    using pts rest by (simp add: last_conv_nth)
  ultimately show ?thesis using pts by simp
qed

lemma simplifyOk_join:
  assumes k: "1 \<le> k" "k < length pts - 1"
    and l: "simplifyOk (take (k + 1) pts) l"
    and r: "simplifyOk (drop k pts) r"
  shows "simplifyOk pts (butlast l @ r)"
proof -
  have lenp: "2 < length pts" using k by simp
  have tk: "take (k + 1) pts \<noteq> []" and dk: "drop k pts \<noteq> []" using k by auto
  from l tk have l1: "subseq l (take (k + 1) pts)" "l \<noteq> []" "hd l = hd (take (k + 1) pts)"
    "last l = last (take (k + 1) pts)"
    by (simp_all add: simplifyOk_def)
  from r dk have r1: "subseq r (drop k pts)" "r \<noteq> []" "hd r = hd (drop k pts)"
    "last r = last (drop k pts)"
    by (simp_all add: simplifyOk_def)
  have r2: "2 \<le> length r" using r k by (simp add: simplifyOk_def)
  have lastl: "last l = pts ! k"
    using l1(4) k by (simp add: take_Suc_conv_app_nth)
  have hdr: "hd r = pts ! k"
    using r1(3) k by (simp add: hd_drop_conv_nth)
  have rsplit: "r = pts ! k # tl r"
    using r1(2) hdr by (metis list.collapse)
  have eq: "butlast l @ r = l @ tl r"
  proof -
    have "l = butlast l @ [pts ! k]" using l1(2) lastl by (metis append_butlast_last_id)
    with rsplit show ?thesis by (metis append.assoc append_Cons append_Nil)
  qed
  have "subseq (tl r) (drop (k + 1) pts)"
  proof -
    have "drop k pts = pts ! k # drop (k + 1) pts"
      using k by (simp add: Cons_nth_drop_Suc)
    with rsplit show ?thesis using r1(1) by (metis subseq_Cons2_iff)
  qed
  with l1(1) have "subseq (l @ tl r) (take (k + 1) pts @ drop (k + 1) pts)"
    by (rule list_emb_append_mono)
  then have sub: "subseq (butlast l @ r) pts" by (simp add: eq)
  have hd: "hd (butlast l @ r) = hd pts"
    using l1(2,3) k unfolding eq by (simp add: hd_append)
  have last: "last (butlast l @ r) = last pts"
    using r1(2,4) dk by simp
  show ?thesis
    using sub hd last r1(2) r2 lenp by (simp add: simplifyOk_def)
qed

lemma simplifyPath_ok:
  assumes tol: "\<not> js_lt tolerance (Num 0)"
  shows "\<exists>ys. simplifyPath pts tolerance = Some ys \<and> simplifyOk pts ys"
proof (induction pts rule: length_induct)
  case (1 pts)
  show ?case
  proof (cases "length pts \<le> 2")
    case True
    then show ?thesis
      by (subst simplifyPath.simps) (simp add: simplifyOk_def)
  next
    case long: False
    show ?thesis
    proof (cases "js_gt (fst (farthestLoop pts)) tolerance")
      case False
      have "simplifyOk pts [pts ! 0, pts ! (length pts - 1)]"
        using long subseq_ends [of pts]
        by (auto simp: simplifyOk_def hd_conv_nth last_conv_nth)
      with long False show ?thesis
        by (subst simplifyPath.simps) simp
    next
      case True
      define k where "k = snd (farthestLoop pts)"
      have k: "1 \<le> k" "k < length pts - 1"
        using farthestLoop_index_pos [OF True tol] farthestLoop_index_less [of pts] long
        by (simp_all add: k_def)
      then have "length (take (k + 1) pts) < length pts" "length (drop k pts) < length pts"
        by auto
      with 1 obtain l r where
        l: "simplifyPath (take (k + 1) pts) tolerance = Some l"
           "simplifyOk (take (k + 1) pts) l" and
        r: "simplifyPath (drop k pts) tolerance = Some r"
           "simplifyOk (drop k pts) r"
        by blast
      have "simplifyPath pts tolerance = Some (butlast l @ r)"
        using long True l(1) r(1) by (subst simplifyPath.simps) (simp add: k_def)
      with simplifyOk_join [OF k l(2) r(2)] show ?thesis by simp
    qed
  qed
qed

text \<open>A path that leaves and comes back, simplified at a coarse and at a fine tolerance.\<close>

lemma farthestLoop_example:
  "farthestLoop
     [\<lparr>x = Num 0, y = Num 0,
        original = \<lparr>lat = 0, lng = 0, elevation = None, timestamp = None\<rparr>\<rparr>,
      \<lparr>x = Num 3, y = Num 4,
        original = \<lparr>lat = 0, lng = 0, elevation = None, timestamp = None\<rparr>\<rparr>,
      \<lparr>x = Num 0, y = Num 0,
        original = \<lparr>lat = 0, lng = 0, elevation = None, timestamp = None\<rparr>\<rparr>]
   = (Num 5, 1)"
proof -
  have sq: "sqrt 25 = 5"
    by (rule real_sqrt_unique) simp_all
  show ?thesis
    by (simp add: farthestLoop_def farthestStep_def pointToLineDistance_def js_sub_Num
        js_neq_def js_gt_def Let_def sq)
qed

lemma simplifyPath_example_coarse:
  "simplifyPath
     [\<lparr>x = Num 0, y = Num 0,
        original = \<lparr>lat = 0, lng = 0, elevation = None, timestamp = None\<rparr>\<rparr>,
      \<lparr>x = Num 3, y = Num 4,
        original = \<lparr>lat = 0, lng = 0, elevation = None, timestamp = None\<rparr>\<rparr>,
      \<lparr>x = Num 0, y = Num 0,
        original = \<lparr>lat = 0, lng = 0, elevation = None, timestamp = None\<rparr>\<rparr>] (Num 10)
   = Some
     [\<lparr>x = Num 0, y = Num 0,
        original = \<lparr>lat = 0, lng = 0, elevation = None, timestamp = None\<rparr>\<rparr>,
      \<lparr>x = Num 0, y = Num 0,
        original = \<lparr>lat = 0, lng = 0, elevation = None, timestamp = None\<rparr>\<rparr>]"
  by (subst simplifyPath.simps) (simp add: farthestLoop_example js_gt_def)

lemma simplifyPath_example_fine:
  "simplifyPath
     [\<lparr>x = Num 0, y = Num 0,
        original = \<lparr>lat = 0, lng = 0, elevation = None, timestamp = None\<rparr>\<rparr>,
      \<lparr>x = Num 3, y = Num 4,
        original = \<lparr>lat = 0, lng = 0, elevation = None, timestamp = None\<rparr>\<rparr>,
      \<lparr>x = Num 0, y = Num 0,
        original = \<lparr>lat = 0, lng = 0, elevation = None, timestamp = None\<rparr>\<rparr>] (Num 1)
   = Some
     [\<lparr>x = Num 0, y = Num 0,
        original = \<lparr>lat = 0, lng = 0, elevation = None, timestamp = None\<rparr>\<rparr>,
      \<lparr>x = Num 3, y = Num 4,
        original = \<lparr>lat = 0, lng = 0, elevation = None, timestamp = None\<rparr>\<rparr>,
      \<lparr>x = Num 0, y = Num 0,
        original = \<lparr>lat = 0, lng = 0, elevation = None, timestamp = None\<rparr>\<rparr>]"
proof -
  have short: "simplifyPath [a, b] t = Some [a, b]" for a b t
    by (subst simplifyPath.simps) simp
  show ?thesis
    by (subst simplifyPath.simps) (simp add: farthestLoop_example js_gt_def short)
qed

text \<open>
  C8. For every tolerance that is not below zero (every finite \<open>t \<ge> 0\<close>; \<^verbatim>\<open>Infinity\<close> and
  \<^verbatim>\<open>NaN\<close> pass the hypothesis too) the simplifier returns, its output is a subsequence
  of the input and so not longer than it, the first and the last element of a non-empty
  input are the first and the last element of the output, and an input of at most two
  points is returned unchanged.
\<close>

theorem simplifyPath_subsequence:
  assumes "\<not> js_lt tolerance (Num 0)"
  shows "\<exists>ys. simplifyPath pts tolerance = Some ys
           \<and> subseq ys pts \<and> length ys \<le> length pts
           \<and> (pts \<noteq> [] \<longrightarrow> ys \<noteq> [] \<and> hd ys = hd pts \<and> last ys = last pts)
           \<and> (length pts \<le> 2 \<longrightarrow> ys = pts)"
proof -
  from simplifyPath_ok [OF assms, of pts] obtain ys where
    ys: "simplifyPath pts tolerance = Some ys" "simplifyOk pts ys"
    by blast
  from ys(2) have "subseq ys pts" by (simp add: simplifyOk_def)
  then have "length ys \<le> length pts" by (rule list_emb_length)
  with ys show ?thesis by (auto simp: simplifyOk_def)
qed

theorem simplifyPath_subsequence_witness:
  "\<not> js_lt (Num 10) (Num 0)
   \<and> (\<exists>ys. simplifyPath
          [\<lparr>x = Num 0, y = Num 0,
             original = \<lparr>lat = 0, lng = 0, elevation = None, timestamp = None\<rparr>\<rparr>,
           \<lparr>x = Num 3, y = Num 4,
             original = \<lparr>lat = 0, lng = 0, elevation = None, timestamp = None\<rparr>\<rparr>,
           \<lparr>x = Num 0, y = Num 0,
             original = \<lparr>lat = 0, lng = 0, elevation = None, timestamp = None\<rparr>\<rparr>] (Num 10)
          = Some ys
        \<and> length ys = 2
        \<and> subseq ys
          [\<lparr>x = Num 0, y = Num 0,
             original = \<lparr>lat = 0, lng = 0, elevation = None, timestamp = None\<rparr>\<rparr>,
           \<lparr>x = Num 3, y = Num 4,
             original = \<lparr>lat = 0, lng = 0, elevation = None, timestamp = None\<rparr>\<rparr>,
           \<lparr>x = Num 0, y = Num 0,
             original = \<lparr>lat = 0, lng = 0, elevation = None, timestamp = None\<rparr>\<rparr>]
        \<and> hd ys = \<lparr>x = Num 0, y = Num 0,
             original = \<lparr>lat = 0, lng = 0, elevation = None, timestamp = None\<rparr>\<rparr>
        \<and> last ys = \<lparr>x = Num 0, y = Num 0,
             original = \<lparr>lat = 0, lng = 0, elevation = None, timestamp = None\<rparr>\<rparr>)"
proof -
  let ?g = "\<lparr>lat = 0::real, lng = 0::real, elevation = None :: real option,
             timestamp = None :: int option\<rparr>"
  let ?z = "\<lparr>x = Num 0, y = Num 0, original = ?g\<rparr>"
  let ?q = "\<lparr>x = Num 3, y = Num 4, original = ?g\<rparr>"
  have tol: "\<not> js_lt (Num 10) (Num 0)" by simp
  from simplifyPath_subsequence [OF tol, of "[?z, ?q, ?z]"] obtain ys where
    ys: "simplifyPath [?z, ?q, ?z] (Num 10) = Some ys" "subseq ys [?z, ?q, ?z]"
      "hd ys = hd [?z, ?q, ?z]" "last ys = last [?z, ?q, ?z]"
    by auto
  from ys(1) have "ys = [?z, ?z]" by (simp add: simplifyPath_example_coarse)
  then have "length ys = 2" by simp
  with tol ys show ?thesis by simp
qed

subsection \<open>A larger tolerance never gives a longer output\<close>

lemma js_gt_Num_mono: "t1 \<le> t2 \<Longrightarrow> js_gt d (Num t2) \<Longrightarrow> js_gt d (Num t1)"
  by (cases d) (simp_all add: js_gt_def)

lemma simplifyPath_shrinks:
  assumes "simplifyPath pts0 tolerance0 = Some ys0"
  shows "shrinks pts0 tolerance0 ys0"
proof (rule simplifyPath.raw_induct [OF _ assms])
  fix f pts tolerance ys
  assume IH: "\<And>p t r. f p t = Some r \<Longrightarrow> shrinks p t r"
    and body: "(if length pts \<le> 2 then Some pts
      else if js_gt (fst (farthestLoop pts)) tolerance then
        do {
          leftPart \<leftarrow> f (take (snd (farthestLoop pts) + 1) pts) tolerance;
          rightPart \<leftarrow> f (drop (snd (farthestLoop pts)) pts) tolerance;
          Some (butlast leftPart @ rightPart)
        }
      else Some [pts ! 0, pts ! (length pts - 1)]) = Some ys"
  show "shrinks pts tolerance ys"
  proof (cases "length pts \<le> 2")
    case True
    with body have "ys = pts" by simp
    with True show ?thesis
      unfolding shrinks_def by (subst simplifyPath.simps) simp
  next
    case long: False
    define k where "k = snd (farthestLoop pts)"
    have kless: "k < length pts - 1"
      using farthestLoop_index_less [of pts] long by (simp add: k_def)
    show ?thesis
    proof (cases "js_gt (fst (farthestLoop pts)) tolerance")
      case False
      with long body have ys: "ys = [pts ! 0, pts ! (length pts - 1)]" by simp
      have "simplifyPath pts (Num t2) = Some ys" if "tolerance = Num t1" "t1 \<le> t2" for t1 t2
      proof -
        have "\<not> js_gt (fst (farthestLoop pts)) (Num t2)"
          using False that js_gt_Num_mono by blast
        with long show ?thesis by (subst simplifyPath.simps) (simp add: ys)
      qed
      then show ?thesis unfolding shrinks_def by (auto simp: ys)
    next
      case True
      with long body obtain l r where
        l: "f (take (k + 1) pts) tolerance = Some l" and
        r: "f (drop k pts) tolerance = Some r" and
        ys: "ys = butlast l @ r"
        by (auto simp: k_def split: bind_splits)
      have sl: "shrinks (take (k + 1) pts) tolerance l"
        and sr: "shrinks (drop k pts) tolerance r"
        using IH [OF l] IH [OF r] by simp_all
      have r2: "2 \<le> length r"
        using sr kless by (simp add: shrinks_def)
      have "\<exists>ys2. simplifyPath pts (Num t2) = Some ys2 \<and> length ys2 \<le> length ys"
        if t: "tolerance = Num t1" "t1 \<le> t2" for t1 t2
      proof (cases "js_gt (fst (farthestLoop pts)) (Num t2)")
        case False
        with long have "simplifyPath pts (Num t2) = Some [pts ! 0, pts ! (length pts - 1)]"
          by (subst simplifyPath.simps) simp
        with r2 show ?thesis by (simp add: ys)
      next
        case gt2: True
        from sl t obtain l2 where
          l2: "simplifyPath (take (k + 1) pts) (Num t2) = Some l2" "length l2 \<le> length l"
          unfolding shrinks_def by blast
        from sr t obtain r2 where
          r2: "simplifyPath (drop k pts) (Num t2) = Some r2" "length r2 \<le> length r"
          unfolding shrinks_def by blast
        have "simplifyPath pts (Num t2) = Some (butlast l2 @ r2)"
          using long gt2 l2(1) r2(1) by (subst simplifyPath.simps) (simp add: k_def)
        with l2(2) r2(2) show ?thesis by (simp add: ys)
      qed
      with r2 show ?thesis unfolding shrinks_def by (simp add: ys)
    qed
  qed
qed

text \<open>
  C9. For finite tolerances \<open>t1 \<le> t2\<close>: whenever the simplifier returns at \<open>t1\<close>, which it
  always does when \<open>t1\<close> is not negative, it returns at \<open>t2\<close> as well, and the output at
  \<open>t2\<close> is at most as long as the output at \<open>t1\<close>.
\<close>

theorem simplifyPath_length_antimono:
  assumes "t1 \<le> t2"
  shows "(0 \<le> t1 \<longrightarrow> (\<exists>ys1. simplifyPath pts (Num t1) = Some ys1))
       \<and> (\<forall>ys1. simplifyPath pts (Num t1) = Some ys1 \<longrightarrow>
            (\<exists>ys2. simplifyPath pts (Num t2) = Some ys2 \<and> length ys2 \<le> length ys1))"
proof (intro conjI impI allI)
  assume "0 \<le> t1"
  then have "\<not> js_lt (Num t1) (Num 0)" by simp
  from simplifyPath_ok [OF this, of pts]
  show "\<exists>ys1. simplifyPath pts (Num t1) = Some ys1" by blast
next
  fix ys1
  assume "simplifyPath pts (Num t1) = Some ys1"
  then have "shrinks pts (Num t1) ys1" by (rule simplifyPath_shrinks)
  with assms show "\<exists>ys2. simplifyPath pts (Num t2) = Some ys2 \<and> length ys2 \<le> length ys1"
    unfolding shrinks_def by blast
qed

theorem simplifyPath_length_antimono_witness:
  "(1::real) \<le> 10
   \<and> (\<exists>ys1 ys2.
        simplifyPath
          [\<lparr>x = Num 0, y = Num 0,
             original = \<lparr>lat = 0, lng = 0, elevation = None, timestamp = None\<rparr>\<rparr>,
           \<lparr>x = Num 3, y = Num 4,
             original = \<lparr>lat = 0, lng = 0, elevation = None, timestamp = None\<rparr>\<rparr>,
           \<lparr>x = Num 0, y = Num 0,
             original = \<lparr>lat = 0, lng = 0, elevation = None, timestamp = None\<rparr>\<rparr>] (Num 1)
          = Some ys1
        \<and> simplifyPath
          [\<lparr>x = Num 0, y = Num 0,
             original = \<lparr>lat = 0, lng = 0, elevation = None, timestamp = None\<rparr>\<rparr>,
           \<lparr>x = Num 3, y = Num 4,
             original = \<lparr>lat = 0, lng = 0, elevation = None, timestamp = None\<rparr>\<rparr>,
           \<lparr>x = Num 0, y = Num 0,
             original = \<lparr>lat = 0, lng = 0, elevation = None, timestamp = None\<rparr>\<rparr>] (Num 10)
          = Some ys2
        \<and> length ys1 = 3 \<and> length ys2 = 2 \<and> length ys2 \<le> length ys1)"
proof -
  let ?g = "\<lparr>lat = 0::real, lng = 0::real, elevation = None :: real option,
             timestamp = None :: int option\<rparr>"
  let ?z = "\<lparr>x = Num 0, y = Num 0, original = ?g\<rparr>"
  let ?q = "\<lparr>x = Num 3, y = Num 4, original = ?g\<rparr>"
  have le: "(1::real) \<le> 10" by simp
  have fine: "simplifyPath [?z, ?q, ?z] (Num 1) = Some [?z, ?q, ?z]"
    by (rule simplifyPath_example_fine)
  from simplifyPath_length_antimono [OF le, of "[?z, ?q, ?z]"] fine obtain ys2 where
    ys2: "simplifyPath [?z, ?q, ?z] (Num 10) = Some ys2" "length ys2 \<le> length [?z, ?q, ?z]"
    by blast
  from ys2(1) have "length ys2 = 2" by (auto simp: simplifyPath_example_coarse)
  with le fine ys2 show ?thesis by simp
qed

section \<open>Properties of the conversion\<close>

text \<open>
  C4 (as amended). \<open>convert\<close> checks none of its options and has no error to raise: for
  every track and all options, whatever \<open>maxWidth\<close> and \<open>maxHeight\<close> are, it returns a
  result with the name and the bounds of the track and the dimensions that
  \<open>calculateOptimalDimensions\<close> computes, provided the tolerance is not negative or the
  simplifier is not run (simplification switched off, or at most 100 points).
\<close>

theorem convert_validates_no_option:
  assumes "optionOr opts simplify True \<and> 100 < length (points t)
             \<longrightarrow> 0 \<le> optionOr opts simplifyTolerance (1 / 1000)"
  shows "\<exists>r. convert toFixed2 str t opts = Some r
           \<and> svg_name r = name t \<and> originalBounds r = bounds t
           \<and> \<lparr>width = svg_width r, height = svg_height r\<rparr>
               = calculateOptimalDimensions (bounds t)
                   (optionOr opts maxWidth 800) (optionOr opts maxHeight 600)"
proof (cases "optionOr opts simplify True \<and> 100 < length (points t)")
  case True
  with assms have "\<not> js_lt (Num (optionOr opts simplifyTolerance (1 / 1000))) (Num 0)"
    by simp
  from simplifyPath_ok [OF this] True show ?thesis
    unfolding convert_def Let_def
    by (auto split: bind_splits)
next
  case False
  then show ?thesis
    unfolding convert_def Let_def by auto
qed

theorem convert_validates_no_option_witness:
  "(0::real) \<le> 1 / 1000
   \<and> (\<exists>r. convert (\<lambda>n. ''0.00'') (\<lambda>n. ''0'')
          \<lparr>name = ''t'',
            points = [\<lparr>lat = - 1, lng = 0, elevation = None, timestamp = None\<rparr>,
                      \<lparr>lat = 1, lng = 2, elevation = None, timestamp = None\<rparr>],
            bounds = \<lparr>north = 1, south = - 1, east = 2, west = 0\<rparr>,
            metadata = \<lparr>distance = 0, duration = None, elevationGain = None\<rparr>\<rparr>
          (Some \<lparr>maxWidth = Some (- 4), maxHeight = Some 600, padding = None, simplify = None,
                 simplifyTolerance = None\<rparr>) = Some r
        \<and> svg_name r = ''t''
        \<and> originalBounds r = \<lparr>north = 1, south = - 1, east = 2, west = 0\<rparr>)"
  using convert_validates_no_option
    [of "Some \<lparr>maxWidth = Some (- 4), maxHeight = Some 600, padding = None, simplify = None,
                simplifyTolerance = None\<rparr>"
        "\<lparr>name = ''t'',
          points = [\<lparr>lat = - 1, lng = 0, elevation = None, timestamp = None\<rparr>,
                    \<lparr>lat = 1, lng = 2, elevation = None, timestamp = None\<rparr>],
          bounds = \<lparr>north = 1, south = - 1, east = 2, west = 0\<rparr>,
          metadata = \<lparr>distance = 0, duration = None, elevationGain = None\<rparr>\<rparr>"
        "\<lambda>n. ''0.00''" "\<lambda>n. ''0''"]
  by (auto simp: optionOr_def)

text \<open>
  C4 fails as stated: with \<open>maxWidth = 0\<close>, \<open>maxHeight = 0\<close> and \<open>simplifyTolerance = - 1\<close>
  the conversion of a two-point track raises nothing and returns a result, a canvas of 0
  by 0 on which both points lie at the origin. (On the only number that occurs, 0, the
  two number formats are \<^verbatim>\<open>0.00\<close> and \<^verbatim>\<open>0\<close>.)
\<close>

theorem convert_invalid_options_counterexample:
  "convert (\<lambda>n. ''0.00'') (\<lambda>n. ''0'')
     \<lparr>name = ''t'',
       points = [\<lparr>lat = - 1, lng = 0, elevation = None, timestamp = None\<rparr>,
                 \<lparr>lat = 1, lng = 2, elevation = None, timestamp = None\<rparr>],
       bounds = \<lparr>north = 1, south = - 1, east = 2, west = 0\<rparr>,
       metadata = \<lparr>distance = 0, duration = None, elevationGain = None\<rparr>\<rparr>
     (Some \<lparr>maxWidth = Some 0, maxHeight = Some 0, padding = None, simplify = None,
            simplifyTolerance = Some (- 1)\<rparr>)
   = Some \<lparr>svg_name = ''t'', svgPath = ''M 0.00 0.00 L 0.00 0.00'', viewBox = ''0 0 0 0'',
           svg_width = Num 0, svg_height = Num 0,
           originalBounds = \<lparr>north = 1, south = - 1, east = 2, west = 0\<rparr>\<rparr>"
  by (simp add: convert_def optionOr_def calculateOptimalDimensions_def gpsToSVG_def
      buildPathData_def getViewBox_def Let_def js_gt_def js_sub_Num)

text \<open>
  C3 (as amended). On the empty point sequence \<open>parseGPXFile\<close> fails with its
  no-track-points error before any bound is computed, so that it hands no empty track on.
  On a non-empty sequence it returns a track whose bounds are north = greatest latitude,
  south = least latitude, east = greatest longitude, west = least longitude. \<open>convert\<close>
  itself does not look at the number of points: given a track without points it returns a
  result, with the empty path.
\<close>

theorem empty_track_rejected_by_parser_only:
  "(ps = [] \<longrightarrow> parseGPXFile trackName ps = Inl NoTrackPoints)
   \<and> (ps \<noteq> [] \<longrightarrow>
        (\<exists>t. parseGPXFile trackName ps = Inr t
           \<and> north (bounds t) = Max (lat ` set ps)
           \<and> south (bounds t) = Min (lat ` set ps)
           \<and> east (bounds t) = Max (lng ` set ps)
           \<and> west (bounds t) = Min (lng ` set ps)))
   \<and> (points t0 = [] \<longrightarrow>
        (\<exists>r. convert toFixed2 str t0 opts = Some r \<and> svgPath r = []))"
proof (intro conjI impI)
  assume "ps = []"
  then show "parseGPXFile trackName ps = Inl NoTrackPoints"
    by (simp add: parseGPXFile_def)
next
  assume "ps \<noteq> []"
  then show "\<exists>t. parseGPXFile trackName ps = Inr t
           \<and> north (bounds t) = Max (lat ` set ps)
           \<and> south (bounds t) = Min (lat ` set ps)
           \<and> east (bounds t) = Max (lng ` set ps)
           \<and> west (bounds t) = Min (lng ` set ps)"
    by (rule parseGPXFile_bounds)
next
  assume "points t0 = []"
  then show "\<exists>r. convert toFixed2 str t0 opts = Some r \<and> svgPath r = []"
    by (simp add: convert_def Let_def buildPathData_def)
qed

theorem empty_track_rejected_by_parser_only_witness:
  "parseGPXFile ''t'' [] = Inl NoTrackPoints
   \<and> (\<exists>t. parseGPXFile ''t''
            [\<lparr>lat = 1, lng = 7, elevation = None, timestamp = None\<rparr>,
             \<lparr>lat = 3, lng = 5, elevation = None, timestamp = None\<rparr>] = Inr t
         \<and> north (bounds t) = 3 \<and> south (bounds t) = 1
         \<and> east (bounds t) = 7 \<and> west (bounds t) = 5)
   \<and> (\<exists>r. convert (\<lambda>n. ''0.00'') (\<lambda>n. ''600'')
            \<lparr>name = ''t'', points = [],
              bounds = \<lparr>north = 1, south = - 1, east = 2, west = 0\<rparr>,
              metadata = \<lparr>distance = 0, duration = None, elevationGain = None\<rparr>\<rparr> None
            = Some r \<and> svgPath r = [])"
  using empty_track_rejected_by_parser_only
      [of "[]" "''t''"
          "\<lparr>name = ''t'', points = [],
            bounds = \<lparr>north = 1, south = - 1, east = 2, west = 0\<rparr>,
            metadata = \<lparr>distance = 0, duration = None, elevationGain = None\<rparr>\<rparr>"
          "\<lambda>n. ''0.00''" "\<lambda>n. ''600''" None]
    empty_track_rejected_by_parser_only
      [of "[\<lparr>lat = 1, lng = 7, elevation = None, timestamp = None\<rparr>,
            \<lparr>lat = 3, lng = 5, elevation = None, timestamp = None\<rparr>]" "''t''"
          "\<lparr>name = ''t'', points = [],
            bounds = \<lparr>north = 1, south = - 1, east = 2, west = 0\<rparr>,
            metadata = \<lparr>distance = 0, duration = None, elevationGain = None\<rparr>\<rparr>"
          "\<lambda>n. ''0.00''" "\<lambda>n. ''600''" None]
  by simp

text \<open>
  C3 fails as stated for the conversion: the track without points, with the default
  options, is converted without any error to an empty path on a canvas of 600 by 600.
  (On the only number that is formatted, 600, the number format is \<^verbatim>\<open>600\<close>.)
\<close>

theorem convert_empty_track_counterexample:
  "convert (\<lambda>n. ''0.00'') (\<lambda>n. ''600'')
     \<lparr>name = ''t'', points = [],
       bounds = \<lparr>north = 1, south = - 1, east = 2, west = 0\<rparr>,
       metadata = \<lparr>distance = 0, duration = None, elevationGain = None\<rparr>\<rparr> None
   = Some \<lparr>svg_name = ''t'', svgPath = [], viewBox = ''0 0 600 600'',
           svg_width = Num 600, svg_height = Num 600,
           originalBounds = \<lparr>north = 1, south = - 1, east = 2, west = 0\<rparr>\<rparr>"
  by (simp add: convert_def optionOr_def calculateOptimalDimensions_def
      buildPathData_def getViewBox_def Let_def js_gt_def)

end
